theory Spec2Isabelle
  imports Complex_Main
begin

section \<open>Values, errors and arrays\<close>

text \<open>
  The program is \<^verbatim>\<open>flirt/eda/preprocessing/particleFilter.py\<close>: the class
  \<^verbatim>\<open>Model\<close>, the callbacks that the pyparticleest simulator invokes, and the class
  \<^verbatim>\<open>ParticleFilter\<close>, the wrapper that runs the simulator over a pandas series.

  A Python float is a finite real or one of the three special values. Rounding and
  overflow of finite arithmetic are not modelled: a finite result is the exact real.
\<close>

datatype pyfloat = Fin real | PosInf | NegInf | NaN

fun is_finite :: "pyfloat \<Rightarrow> bool" where
  "is_finite (Fin x) = True"
| "is_finite PosInf = False"
| "is_finite NegInf = False"
| "is_finite NaN = False"

text \<open>Float addition and negation with the IEEE rules for the special values.\<close>

fun fadd :: "pyfloat \<Rightarrow> pyfloat \<Rightarrow> pyfloat" where
  "fadd (Fin a) (Fin b) = Fin (a + b)"
| "fadd NaN y = NaN"
| "fadd x NaN = NaN"
| "fadd PosInf NegInf = NaN"
| "fadd NegInf PosInf = NaN"
| "fadd PosInf y = PosInf"
| "fadd x PosInf = PosInf"
| "fadd NegInf y = NegInf"
| "fadd x NegInf = NegInf"

fun fneg :: "pyfloat \<Rightarrow> pyfloat" where
  "fneg (Fin a) = Fin (- a)"
| "fneg PosInf = NegInf"
| "fneg NegInf = PosInf"
| "fneg NaN = NaN"

definition fsub :: "pyfloat \<Rightarrow> pyfloat \<Rightarrow> pyfloat" where
  "fsub x y = fadd x (fneg y)"

text \<open>
  The exceptions that numpy and pandas raise on the paths the program takes, and one
  constructor for whatever the simulator library raises. \<^verbatim>\<open>particleFilter.py\<close> has no
  \<^verbatim>\<open>raise\<close> of its own.
\<close>

datatype error = ValueError | IndexError | LibraryError

text \<open>Sequencing of fallible steps: the first exception ends the computation.\<close>

definition ebind :: "error + 'a \<Rightarrow> ('a \<Rightarrow> error + 'b) \<Rightarrow> error + 'b" where
  "ebind r f = (case r of Inl e \<Rightarrow> Inl e | Inr x \<Rightarrow> f x)"

fun emap :: "('a \<Rightarrow> error + 'b) \<Rightarrow> 'a list \<Rightarrow> error + 'b list" where
  "emap f [] = Inr []"
| "emap f (x # xs) =
     (case f x of
        Inl e \<Rightarrow> Inl e
      | Inr y \<Rightarrow> (case emap f xs of Inl e \<Rightarrow> Inl e | Inr ys \<Rightarrow> Inr (y # ys)))"

text \<open>
  A two-dimensional float array is the list of its rows. The particle arrays of the
  program have shape \<open>(N, 1)\<close>: \<open>N\<close> rows of one entry.
\<close>

type_synonym array1 = "pyfloat list"
type_synonym array2 = "pyfloat list list"

text \<open>\<^verbatim>\<open>a.reshape((-1, 1))\<close> of a one-dimensional array: one row per entry.\<close>

definition reshape_col :: "'a list \<Rightarrow> 'a list list" where
  "reshape_col xs = map (\<lambda>x. [x]) xs"

text \<open>
  numpy broadcasting along one axis. \<open>bcast_to n b\<close> stretches \<open>b\<close> to length \<open>n\<close>
  (the operand of an in-place operation must fit the target), \<open>bcast_pair\<close> pairs two
  operands where either may have length one. Any other mismatch is numpy's
  \<^verbatim>\<open>ValueError: operands could not be broadcast together\<close>.
\<close>

definition bcast_to :: "nat \<Rightarrow> 'a list \<Rightarrow> error + 'a list" where
  "bcast_to n b =
     (if length b = n then Inr b
      else if length b = 1 then Inr (replicate n (hd b))
      else Inl ValueError)"

definition bcast_pair :: "'a list \<Rightarrow> 'b list \<Rightarrow> error + ('a \<times> 'b) list" where
  "bcast_pair a b =
     (if length a = length b then Inr (zip a b)
      else if length a = 1 then Inr (map (\<lambda>y. (hd a, y)) b)
      else if length b = 1 then Inr (map (\<lambda>x. (x, hd b)) a)
      else Inl ValueError)"

text \<open>\<^verbatim>\<open>a += b\<close> on two-dimensional arrays: the new contents of \<open>a\<close>.\<close>

definition np_iadd :: "array2 \<Rightarrow> array2 \<Rightarrow> error + array2" where
  "np_iadd a b =
     ebind (bcast_to (length a) b) (\<lambda>bs.
       emap (\<lambda>(ra, rb). ebind (bcast_to (length ra) rb) (\<lambda>rb'.
               Inr (map (\<lambda>(x, y). fadd x y) (zip ra rb'))))
            (zip a bs))"

text \<open>\<^verbatim>\<open>a - b\<close> on two-dimensional arrays: a fresh array.\<close>

definition np_sub :: "array2 \<Rightarrow> array2 \<Rightarrow> error + array2" where
  "np_sub a b =
     ebind (bcast_pair a b) (\<lambda>rows.
       emap (\<lambda>(ra, rb). ebind (bcast_pair ra rb) (\<lambda>ps.
               Inr (map (\<lambda>(x, y). fsub x y) ps)))
            rows)"

text \<open>
  \<^verbatim>\<open>a[find]\<close> with an integer index array: the selected rows, copied. A negative index
  counts from the end; an index outside \<open>[-n, n)\<close> raises \<^verbatim>\<open>IndexError\<close>.
\<close>

definition np_take :: "'a list \<Rightarrow> int list \<Rightarrow> error + 'a list" where
  "np_take a ixs =
     emap (\<lambda>i. let n = int (length a); j = (if i < 0 then n + i else i)
               in if 0 \<le> j \<and> j < n then Inr (a ! nat j) else Inl IndexError)
          ixs"

section \<open>The random generator\<close>

text \<open>
  \<^verbatim>\<open>np.random\<close> is global state. Its state is represented by the sequence of standard
  normal variates it will produce next; a draw consumes a prefix.
  \<^verbatim>\<open>np.random.normal(loc, scale, (n,))\<close> returns \<open>loc + scale * z\<close> for the next \<open>n\<close>
  variates \<open>z\<close>: \<open>scale\<close> is the standard deviation of the result. numpy raises
  \<^verbatim>\<open>ValueError\<close> for a negative scale and for a negative dimension.
\<close>

type_synonym rng = "nat \<Rightarrow> real"

definition np_random_normal :: "real \<Rightarrow> real \<Rightarrow> int \<Rightarrow> rng \<Rightarrow> error + (array1 \<times> rng)" where
  "np_random_normal loc scale n g =
     (if scale < 0 \<or> n < 0 then Inl ValueError
      else Inr (map (\<lambda>i. Fin (loc + scale * g i)) [0..<nat n], \<lambda>i. g (i + nat n)))"

section \<open>The state-space model: class Model\<close>

text \<open>
  \<^verbatim>\<open>Model.__init__\<close> stores \<^verbatim>\<open>np.copy\<close> of its three arguments. \<open>P0\<close> and \<open>Q\<close> arrive
  as floats, \<open>R\<close> as the array \<^verbatim>\<open>((R_variance,),)\<close>; a copy has the value of its original.
\<close>

record Model =
  Model_P0 :: real
  Model_Q :: real
  Model_R :: "real list list"

definition Model_init :: "real \<Rightarrow> real \<Rightarrow> real list list \<Rightarrow> Model" where
  "Model_init P0 Q R = \<lparr>Model_P0 = P0, Model_Q = Q, Model_R = R\<rparr>"

text \<open>
  The methods of \<^verbatim>\<open>Model\<close> receive particle arrays by reference, and
  \<^verbatim>\<open>update\<close> writes through the reference. The state they run in holds the model
  object, the store of two-dimensional arrays (an address is a natural number, the
  addresses below \<open>next_free\<close> are allocated) and the state of \<^verbatim>\<open>np.random\<close>.
\<close>

record pystate =
  self_model :: Model
  arrays :: "nat \<Rightarrow> array2"
  next_free :: nat
  np_random :: rng

definition alloc :: "array2 \<Rightarrow> pystate \<Rightarrow> nat \<times> pystate" where
  "alloc a s =
     (next_free s, s\<lparr>arrays := (arrays s)(next_free s := a), next_free := Suc (next_free s)\<rparr>)"

text \<open>
  \<^verbatim>\<open>pyparticleest.utils.kalman\<close> is a library outside the repository; its two
  functions are parameters. Both take the error array and the covariance array and
  return one float.
\<close>

record kalman =
  lognormpdf_scalar :: "array2 \<Rightarrow> real list list \<Rightarrow> error + pyfloat"
  lognormpdf :: "array2 \<Rightarrow> real list list \<Rightarrow> error + pyfloat"

text \<open>
  \<^verbatim>\<open>create_initial_estimate(self, N)\<close>:
  \<^verbatim>\<open>np.random.normal(0.0, self.P0, (N,)).reshape((-1, 1))\<close>. The result is a fresh array.
\<close>

definition Model_create_initial_estimate :: "int \<Rightarrow> pystate \<Rightarrow> error + (nat \<times> pystate)" where
  "Model_create_initial_estimate N s =
     (case np_random_normal 0 (Model_P0 (self_model s)) N (np_random s) of
        Inl e \<Rightarrow> Inl e
      | Inr (xs, g') \<Rightarrow> Inr (alloc (reshape_col xs) (s\<lparr>np_random := g'\<rparr>)))"

text \<open>
  \<^verbatim>\<open>sample_process_noise(self, particles, u, t)\<close>: \<^verbatim>\<open>N = len(particles)\<close>, then
  \<^verbatim>\<open>np.random.normal(0.0, self.Q, (N,)).reshape((-1, 1))\<close>. The arguments \<open>u\<close> and
  \<open>t\<close> are not read and are left out.
\<close>

definition Model_sample_process_noise :: "nat \<Rightarrow> pystate \<Rightarrow> error + (nat \<times> pystate)" where
  "Model_sample_process_noise particles s =
     (let N = int (length (arrays s particles)) in
      case np_random_normal 0 (Model_Q (self_model s)) N (np_random s) of
        Inl e \<Rightarrow> Inl e
      | Inr (xs, g') \<Rightarrow> Inr (alloc (reshape_col xs) (s\<lparr>np_random := g'\<rparr>)))"

text \<open>
  \<^verbatim>\<open>update(self, particles, u, t, noise)\<close>: \<^verbatim>\<open>particles += noise\<close>. The sum is written
  into the array \<open>particles\<close> refers to, and the method returns \<^verbatim>\<open>None\<close>.
\<close>

definition Model_update :: "nat \<Rightarrow> nat \<Rightarrow> pystate \<Rightarrow> error + (unit \<times> pystate)" where
  "Model_update particles noise s =
     (case np_iadd (arrays s particles) (arrays s noise) of
        Inl e \<Rightarrow> Inl e
      | Inr a \<Rightarrow> Inr ((), s\<lparr>arrays := (arrays s)(particles := a)\<rparr>))"

text \<open>
  \<^verbatim>\<open>measure(self, particles, y, t)\<close>: for each row \<open>k\<close>,
  \<^verbatim>\<open>logyprob[k] = kalman.lognormpdf_scalar(particles[k].reshape(-1, 1) - y, self.R)\<close>.
  The result is a fresh one-dimensional array, returned by value.
\<close>

definition Model_measure :: "kalman \<Rightarrow> nat \<Rightarrow> pyfloat \<Rightarrow> pystate \<Rightarrow> error + (array1 \<times> pystate)" where
  "Model_measure K particles y s =
     (case emap (\<lambda>row. lognormpdf_scalar K (map (map (\<lambda>x. fsub x y)) (reshape_col row))
                                           (Model_R (self_model s)))
                (arrays s particles) of
        Inl e \<Rightarrow> Inl e
      | Inr logyprob \<Rightarrow> Inr (logyprob, s))"

text \<open>
  \<^verbatim>\<open>logp_xnext_full(self, part, past_trajs, pind, future_trajs, find, ut, yt, tt, cur_ind)\<close>:
  \<^verbatim>\<open>diff = future_trajs[0].pa.part[find] - part\<close>, then for each row \<open>k\<close>,
  \<^verbatim>\<open>kalman.lognormpdf(diff[k].reshape(-1, 1), np.asarray(self.Q).reshape(1, 1))\<close>.
  \<open>future_trajs\<close> is the list of the particle arrays of the future steps; the other
  arguments are not read and are left out.
\<close>

definition Model_logp_xnext_full ::
  "kalman \<Rightarrow> nat \<Rightarrow> nat list \<Rightarrow> int list \<Rightarrow> pystate \<Rightarrow> error + (array1 \<times> pystate)" where
  "Model_logp_xnext_full K part future_trajs find_ix s =
     (case future_trajs of
        [] \<Rightarrow> Inl IndexError
      | ft # _ \<Rightarrow>
          ebind (np_take (arrays s ft) find_ix) (\<lambda>sel.
          ebind (np_sub sel (arrays s part)) (\<lambda>diff.
          ebind (emap (\<lambda>row. lognormpdf K (reshape_col row) [[Model_Q (self_model s)]]) diff)
            (\<lambda>logpxnext. Inr (logpxnext, s)))))"

section \<open>The wrapper: class ParticleFilter\<close>

text \<open>
  \<^verbatim>\<open>ParticleFilter.__init__\<close> stores its five arguments; \<open>R_variance\<close> is wrapped:
  \<^verbatim>\<open>self.R = np.asarray(((R_variance,),))\<close>. Nothing is checked.
\<close>

record ParticleFilter =
  num_particles :: int
  num_smoothers :: int
  PF_P0 :: real
  PF_Q :: real
  PF_R :: "real list list"

definition ParticleFilter_init :: "int \<Rightarrow> int \<Rightarrow> real \<Rightarrow> real \<Rightarrow> real \<Rightarrow> ParticleFilter" where
  "ParticleFilter_init n_particles n_smoothers P0_variance Q_variance R_variance =
     \<lparr>num_particles = n_particles, num_smoothers = n_smoothers,
      PF_P0 = P0_variance, PF_Q = Q_variance, PF_R = [[R_variance]]\<rparr>"

text \<open>
  A pandas index is an object with an identity and a sequence of labels (the
  timestamps). A series has a one-dimensional array of values, an index and a name.
\<close>

record 't Index =
  index_id :: nat
  labels :: "'t list"

record 't Series =
  series_values :: array1
  series_index :: "'t Index"
  series_name :: string

text \<open>\<^verbatim>\<open>np.ravel(data)\<close>: the values of the series as a one-dimensional array.\<close>

definition np_ravel :: "'t Series \<Rightarrow> array1" where
  "np_ravel data = series_values data"

text \<open>
  \<^verbatim>\<open>pd.Series(data=..., index=..., name=...)\<close> with an array as data: pandas raises
  \<^verbatim>\<open>ValueError\<close> when the array and the index differ in length, and keeps the index
  object it is given.
\<close>

definition pd_Series :: "array1 \<Rightarrow> 't Index \<Rightarrow> string \<Rightarrow> error + 't Series" where
  "pd_Series vs ix nm =
     (if length vs = length (labels ix)
      then Inr \<lparr>series_values = vs, series_index = ix, series_name = nm\<rparr>
      else Inl ValueError)"

text \<open>\<^verbatim>\<open>a[:, 0]\<close>: entry 0 of every row; \<^verbatim>\<open>IndexError\<close> on a row without entries.\<close>

definition column0 :: "array2 \<Rightarrow> error + array1" where
  "column0 a = emap (\<lambda>row. case row of [] \<Rightarrow> Inl IndexError | x # _ \<Rightarrow> Inr x) a"

text \<open>
  \<^verbatim>\<open>pyparticleest.simulator\<close> is a library outside the repository and is a parameter.
  \<open>simulate lib model y n m g\<close> stands for
  \<^verbatim>\<open>sim = Simulator(model, u=None, y=y)\<close> followed by
  \<^verbatim>\<open>sim.simulate(n, m, filter='PF', smoother='full', meas_first=False)\<close>, started with
  the generator in state \<open>g\<close>: it raises, or leaves a simulator \<open>sim\<close> and a new generator
  state. The simulator only reads \<open>y\<close>. \<open>get_filtered_mean\<close> is the accessor that
  \<^verbatim>\<open>__process__\<close> calls on the finished simulator: one row per step of the forward
  trajectory, the weighted mean of the particles of that step. The backward
  trajectories that \<open>m\<close> asks for are never read by \<^verbatim>\<open>__process__\<close> and have no accessor
  here.
\<close>

record 's pyparticleest =
  simulate :: "Model \<Rightarrow> array1 \<Rightarrow> int \<Rightarrow> int \<Rightarrow> rng \<Rightarrow> error + ('s \<times> rng)"
  get_filtered_mean :: "'s \<Rightarrow> array2"

text \<open>
  \<^verbatim>\<open>ParticleFilter.__process__(self, data)\<close>. \<open>eda_len\<close> is computed and not used.
\<close>

definition ParticleFilter_process ::
  "'s pyparticleest \<Rightarrow> ParticleFilter \<Rightarrow> 't Series \<Rightarrow> rng \<Rightarrow> error + ('t Series \<times> rng)" where
  "ParticleFilter_process lib self data g =
     (let eda = np_ravel data;
          eda_len = length eda;
          model = Model_init (PF_P0 self) (PF_Q self) (PF_R self)
      in case simulate lib model eda (num_particles self) (num_smoothers self) g of
           Inl e \<Rightarrow> Inl e
         | Inr (sim, g') \<Rightarrow>
             (let vals_mean = get_filtered_mean lib sim in
              case column0 vals_mean of
                Inl e \<Rightarrow> Inl e
              | Inr particle_filtered \<Rightarrow>
                  (case pd_Series particle_filtered (series_index data) ''filtered_eda'' of
                     Inl e \<Rightarrow> Inl e
                   | Inr out \<Rightarrow> Inr (out, g'))))"

section \<open>What the libraries are taken to do\<close>

text \<open>
  With \<^verbatim>\<open>meas_first=False\<close> the first measurement belongs to the step after the
  initial estimate: the forward trajectory starts with the initial particles and gains
  one step per measurement, so a finished simulator holds one filtered-mean row more
  than there are measurements.
\<close>

definition simulator_contract :: "'s pyparticleest \<Rightarrow> bool" where
  "simulator_contract lib \<longleftrightarrow>
     (\<forall>model y n m g sim g'.
        simulate lib model y n m g = Inr (sim, g') \<longrightarrow>
        length (get_filtered_mean lib sim) = Suc (length y))"

text \<open>The density of the normal distribution with mean \<open>mu\<close> and variance \<open>var\<close>.\<close>

definition normal_pdf :: "real \<Rightarrow> real \<Rightarrow> real \<Rightarrow> real" where
  "normal_pdf mu var x = exp (- ((x - mu)\<^sup>2) / (2 * var)) / sqrt (2 * pi * var)"

text \<open>
  What pyparticleest documents for \<^verbatim>\<open>lognormpdf_scalar(err, S)\<close> and
  \<^verbatim>\<open>lognormpdf(err, S)\<close>: the logarithm of the Gaussian density of \<open>err\<close> given the
  covariance \<open>S\<close>, here for a finite \<open>1 \<times> 1\<close> error and a positive \<open>1 \<times> 1\<close> covariance.
\<close>

definition kalman_contract :: "kalman \<Rightarrow> bool" where
  "kalman_contract K \<longleftrightarrow>
     (\<forall>e S. 0 < S \<longrightarrow>
        lognormpdf_scalar K [[Fin e]] [[S]] = Inr (Fin (ln (normal_pdf 0 S e))) \<and>
        lognormpdf K [[Fin e]] [[S]] = Inr (Fin (ln (normal_pdf 0 S e))))"

text \<open>
  One function that meets the contract, by the closed form
  \<open>- (ln (2 pi) + ln S + err\<^sup>2 / S) / 2\<close>. The logarithm of a covariance that is not
  positive is a \<^verbatim>\<open>ValueError\<close> (math domain error); a NaN error gives NaN and an
  infinite error gives minus infinity, as the arithmetic of the closed form does.
\<close>

definition lognormpdf_closed_form :: "array2 \<Rightarrow> real list list \<Rightarrow> error + pyfloat" where
  "lognormpdf_closed_form err S =
     (case (err, S) of
        ([[e]], [[v]]) \<Rightarrow>
          if 0 < v
          then Inr (case e of
                      Fin x \<Rightarrow> Fin (- (ln (2 * pi) + ln v + x\<^sup>2 / v) / 2)
                    | NaN \<Rightarrow> NaN
                    | _ \<Rightarrow> NegInf)
          else Inl ValueError
      | _ \<Rightarrow> Inl ValueError)"

definition kalman_closed_form :: kalman where
  "kalman_closed_form =
     \<lparr>lognormpdf_scalar = lognormpdf_closed_form, lognormpdf = lognormpdf_closed_form\<rparr>"

section \<open>The simulator on one particle\<close>

text \<open>
  The run of the library with one particle and one trajectory, as far as
  \<^verbatim>\<open>__process__\<close> observes it. The trajectory starts with
  \<^verbatim>\<open>create_initial_estimate\<close>. Each measurement adds a step: the particle array of the
  last step is copied, \<^verbatim>\<open>sample_process_noise\<close> and \<^verbatim>\<open>update\<close> advance the copy, and
  \<^verbatim>\<open>measure\<close> adds the log-likelihood to the log-weight. With one particle nothing is
  resampled. The filtered mean of a step is the particle times its normalised weight
  \<open>exp w / exp w\<close>: 1 for a finite log-weight \<open>w\<close>, NaN otherwise.
\<close>

definition single_mean :: "pyfloat \<Rightarrow> array2 \<Rightarrow> error + pyfloat list" where
  "single_mean w part =
     (case part of
        [row] \<Rightarrow> Inr (map (\<lambda>x. if is_finite w then x else NaN) row)
      | _ \<Rightarrow> Inl LibraryError)"

fun forward_pass ::
  "kalman \<Rightarrow> array1 \<Rightarrow> nat \<Rightarrow> pyfloat \<Rightarrow> pystate \<Rightarrow> error + (array2 \<times> pystate)" where
  "forward_pass K [] p w s = Inr ([], s)"
| "forward_pass K (y # ys) p w s =
     (case alloc (arrays s p) s of
        (p', s0) \<Rightarrow>
          ebind (Model_sample_process_noise p' s0) (\<lambda>(v, s1).
          ebind (Model_update p' v s1) (\<lambda>(u, s2).
          ebind (Model_measure K p' y s2) (\<lambda>(logyprob, s3).
            (case logyprob of
               [l] \<Rightarrow>
                 ebind (single_mean (fadd w l) (arrays s3 p')) (\<lambda>row.
                 ebind (forward_pass K ys p' (fadd w l) s3) (\<lambda>(rows, s4).
                   Inr (row # rows, s4)))
             | _ \<Rightarrow> Inl LibraryError)))))"

text \<open>
  The stand-in covers one particle and one trajectory only: for other counts it answers
  \<^verbatim>\<open>LibraryError\<close>, which says nothing about the library. On a series without
  samples the library raises \<^verbatim>\<open>IndexError\<close> after the initial estimate. The draws
  of the smoother are not modelled: the generator state returned is the one after the
  forward pass.
\<close>

definition single_particle_simulate ::
  "kalman \<Rightarrow> Model \<Rightarrow> array1 \<Rightarrow> int \<Rightarrow> int \<Rightarrow> rng \<Rightarrow> error + (array2 \<times> rng)" where
  "single_particle_simulate K model y n m g =
     (if n = 1 \<and> m = 1
      then ebind (Model_create_initial_estimate n
                   \<lparr>self_model = model, arrays = (\<lambda>a. []), next_free = 0, np_random = g\<rparr>)
             (\<lambda>(p, s1).
                if y = [] then Inl IndexError
                else ebind (single_mean (Fin 0) (arrays s1 p)) (\<lambda>row0.
                     ebind (forward_pass K y p (Fin 0) s1) (\<lambda>(rows, s2).
                       Inr (row0 # rows, np_random s2))))
      else Inl LibraryError)"

definition single_particle_simulator :: "kalman \<Rightarrow> array2 pyparticleest" where
  "single_particle_simulator K =
     \<lparr>simulate = single_particle_simulate K, get_filtered_mean = (\<lambda>rows. rows)\<rparr>"

section \<open>Concrete inputs\<close>

text \<open>A generator state whose every variate is 1, and one whose variates are 0, 1, 2, ...\<close>

definition rng_ones :: rng where
  "rng_ones = (\<lambda>i. 1)"

definition rng_count :: rng where
  "rng_count = (\<lambda>i. real i)"

text \<open>A store with the particle array \<open>[[1], [2]]\<close> at address 0 and the noise \<open>[[10], [20]]\<close> at 1.\<close>

definition state_two :: "real \<Rightarrow> real \<Rightarrow> real \<Rightarrow> pystate" where
  "state_two p0 q r =
     \<lparr>self_model = Model_init p0 q [[r]],
      arrays = ((\<lambda>a. [])(0 := [[Fin 1], [Fin 2]], 1 := [[Fin 10], [Fin 20]])),
      next_free = 2,
      np_random = rng_ones\<rparr>"

text \<open>A series of two samples with the timestamps 100 and 350.\<close>

definition series_two :: "pyfloat \<Rightarrow> pyfloat \<Rightarrow> int Series" where
  "series_two v w =
     \<lparr>series_values = [v, w],
      series_index = \<lparr>index_id = 7, labels = [100, 350]\<rparr>,
      series_name = ''eda''\<rparr>"

section \<open>Lemmas about the array operations\<close>


lemma np_iadd_same_shape:
  assumes sh: "list_all2 (\<lambda>ra rb. length ra = length rb) a b"
  shows "np_iadd a b = Inr (map (\<lambda>(ra, rb). map (\<lambda>(x, y). fadd x y) (zip ra rb)) (zip a b))"
proof -
  from sh have len: "length b = length a"
    by (simp add: list_all2_lengthD)
  from sh have "emap (\<lambda>(ra, rb). ebind (bcast_to (length ra) rb) (\<lambda>rb'.
                        Inr (map (\<lambda>(x, y). fadd x y) (zip ra rb')))) (zip a b)
      = Inr (map (\<lambda>(ra, rb). map (\<lambda>(x, y). fadd x y) (zip ra rb)) (zip a b))"
    by (induction rule: list_all2_induct) (simp_all add: ebind_def bcast_to_def)
  with len show ?thesis
    by (simp add: np_iadd_def ebind_def bcast_to_def)
qed

lemma np_sub_columns:
  assumes "length xn = length xp"
  shows "np_sub (reshape_col (map Fin xn)) (reshape_col (map Fin xp))
           = Inr (reshape_col (map (\<lambda>(a, b). Fin (a - b)) (zip xn xp)))"
proof -
  have "emap (\<lambda>(ra, rb). ebind (bcast_pair ra rb) (\<lambda>ps. Inr (map (\<lambda>(x, y). fsub x y) ps)))
          (zip (reshape_col (map Fin xn)) (reshape_col (map Fin xp)))
        = Inr (reshape_col (map (\<lambda>(a, b). Fin (a - b)) (zip xn xp)))"
    using assms
    by (induction xn xp rule: list_induct2)
       (simp_all add: reshape_col_def ebind_def bcast_pair_def fsub_def)
  then show ?thesis
    using assms by (simp add: np_sub_def ebind_def bcast_pair_def reshape_col_def)
qed

section \<open>Lemmas about the normal density\<close>

lemma ln_normal_pdf:
  assumes "0 < v"
  shows "ln (normal_pdf mu v x) = - (ln (2 * pi) + ln v + (x - mu)\<^sup>2 / v) / 2"
proof -
  have pos: "0 < 2 * pi * v"
    using assms by simp
  have "ln (normal_pdf mu v x) = - ((x - mu)\<^sup>2) / (2 * v) - ln (sqrt (2 * pi * v))"
    unfolding normal_pdf_def using pos by (simp add: ln_div)
  also have "ln (sqrt (2 * pi * v)) = ln (2 * pi * v) / 2"
    using pos by (simp add: ln_sqrt)
  also have "ln (2 * pi * v) = ln (2 * pi) + ln v"
    using assms by (simp add: ln_mult)
  finally show ?thesis
    by (simp add: field_simps)
qed

lemma normal_pdf_of_error: "normal_pdf 0 v (x - y) = normal_pdf x v y"
  by (simp add: normal_pdf_def power2_commute)

lemma normal_pdf_of_step: "normal_pdf 0 v (xn - xp) = normal_pdf xp v xn"
  by (simp add: normal_pdf_def)

lemma kalman_closed_form_contract: "kalman_contract kalman_closed_form"
  by (simp add: kalman_contract_def kalman_closed_form_def lognormpdf_closed_form_def
        ln_normal_pdf)

section \<open>The operations of Model\<close>

lemma measure_log_density:
  assumes K: "kalman_contract K" and r: "0 < r"
    and R: "Model_R (self_model s) = [[r]]"
    and P: "arrays s particles = reshape_col (map Fin xs)"
  shows "Model_measure K particles (Fin y) s = Inr (map (\<lambda>x. Fin (ln (normal_pdf x r y))) xs, s)"
proof -
  have row: "\<And>x. lognormpdf_scalar K [[fsub (Fin x) (Fin y)]] [[r]]
                = Inr (Fin (ln (normal_pdf x r y)))"
    using K r by (simp add: kalman_contract_def fsub_def normal_pdf_of_error)
  have "emap (\<lambda>row. lognormpdf_scalar K (map (map (\<lambda>x. fsub x (Fin y))) (reshape_col row)) [[r]])
          (reshape_col (map Fin xs)) = Inr (map (\<lambda>x. Fin (ln (normal_pdf x r y))) xs)"
    by (induction xs) (simp_all add: reshape_col_def row)
  then show ?thesis
    by (simp add: Model_measure_def R P)
qed

lemma logp_log_density:
  assumes K: "kalman_contract K" and q: "0 < q"
    and Q: "Model_Q (self_model s) = q"
    and P: "arrays s part = reshape_col (map Fin xprev)"
    and F: "np_take (arrays s ft) find_ix = Inr (reshape_col (map Fin xnext))"
    and L: "length xnext = length xprev"
  shows "Model_logp_xnext_full K part (ft # rest) find_ix s =
           Inr (map (\<lambda>(xn, xp). Fin (ln (normal_pdf xp q xn))) (zip xnext xprev), s)"
proof -
  have row: "\<And>d. lognormpdf K [[Fin d]] [[q]] = Inr (Fin (ln (normal_pdf 0 q d)))"
    using K q by (simp add: kalman_contract_def)
  have "emap (\<lambda>row. lognormpdf K (reshape_col row) [[q]])
          (reshape_col (map (\<lambda>(a, b). Fin (a - b)) (zip xnext xprev)))
        = Inr (map (\<lambda>(xn, xp). Fin (ln (normal_pdf xp q xn))) (zip xnext xprev))"
    using L
    by (induction xnext xprev rule: list_induct2)
       (simp_all add: reshape_col_def row normal_pdf_of_step)
  then show ?thesis
    by (simp add: Model_logp_xnext_full_def F P Q ebind_def np_sub_columns [OF L])
qed

lemma create_initial_estimate_frame:
  assumes "Model_create_initial_estimate N s = Inr (a, s')"
  shows "self_model s' = self_model s \<and> a = next_free s \<and>
         next_free s' = Suc (next_free s) \<and>
         (\<forall>c. c \<noteq> next_free s \<longrightarrow> arrays s' c = arrays s c)"
  using assms
  by (auto simp: Model_create_initial_estimate_def alloc_def split: sum.splits prod.splits)

lemma sample_process_noise_frame:
  assumes "Model_sample_process_noise particles s = Inr (a, s')"
  shows "self_model s' = self_model s \<and> a = next_free s \<and>
         next_free s' = Suc (next_free s) \<and>
         (\<forall>c. c \<noteq> next_free s \<longrightarrow> arrays s' c = arrays s c)"
  using assms
  by (auto simp: Model_sample_process_noise_def alloc_def Let_def split: sum.splits prod.splits)

lemma update_frame:
  assumes "Model_update particles noise s = Inr (u, s')"
  shows "self_model s' = self_model s \<and> np_random s' = np_random s \<and>
         next_free s' = next_free s \<and>
         np_iadd (arrays s particles) (arrays s noise) = Inr (arrays s' particles) \<and>
         (\<forall>c. c \<noteq> particles \<longrightarrow> arrays s' c = arrays s c)"
  using assms by (auto simp: Model_update_def split: sum.splits)

lemma measure_frame:
  assumes "Model_measure K particles y s = Inr (lp, s')"
  shows "s' = s"
  using assms by (auto simp: Model_measure_def split: sum.splits)

lemma logp_xnext_full_frame:
  assumes "Model_logp_xnext_full K part future_trajs find_ix s = Inr (lp, s')"
  shows "s' = s"
  using assms
  by (auto simp: Model_logp_xnext_full_def ebind_def split: sum.splits list.splits)

section \<open>The run of ParticleFilter.__process__\<close>

lemma emap_length: "emap f xs = Inr ys \<Longrightarrow> length ys = length xs"
  by (induction xs arbitrary: ys) (auto split: sum.splits)

lemma column0_length: "column0 a = Inr vs \<Longrightarrow> length vs = length a"
  by (simp add: column0_def emap_length)

lemma process_Inr_iff:
  "ParticleFilter_process lib self data g = Inr (out, g') \<longleftrightarrow>
     (\<exists>sim vs.
        simulate lib (Model_init (PF_P0 self) (PF_Q self) (PF_R self)) (series_values data)
          (num_particles self) (num_smoothers self) g = Inr (sim, g') \<and>
        column0 (get_filtered_mean lib sim) = Inr vs \<and>
        length vs = length (labels (series_index data)) \<and>
        out = \<lparr>series_values = vs, series_index = series_index data,
               series_name = ''filtered_eda''\<rparr>)"
  by (auto simp: ParticleFilter_process_def np_ravel_def pd_Series_def Let_def
           split: sum.splits prod.splits if_splits)

text \<open>
  One row more than labels: \<^verbatim>\<open>pd.Series\<close> never accepts what the simulator leaves.
\<close>

lemma process_no_series:
  assumes c: "simulator_contract lib"
    and wf: "length (series_values data) = length (labels (series_index data))"
  shows "ParticleFilter_process lib self data g \<noteq> Inr (out, g')"
proof
  assume "ParticleFilter_process lib self data g = Inr (out, g')"
  then obtain sim vs where
    s: "simulate lib (Model_init (PF_P0 self) (PF_Q self) (PF_R self)) (series_values data)
          (num_particles self) (num_smoothers self) g = Inr (sim, g')"
    and v: "column0 (get_filtered_mean lib sim) = Inr vs"
    and l: "length vs = length (labels (series_index data))"
    unfolding process_Inr_iff by blast
  from c s have "length (get_filtered_mean lib sim) = Suc (length (series_values data))"
    unfolding simulator_contract_def by blast
  with column0_length [OF v] l wf show False
    by simp
qed

section \<open>The simulator on one particle: its runs\<close>

lemma forward_pass_length:
  "forward_pass K ys p w s = Inr (rows, s') \<Longrightarrow> length rows = length ys"
proof (induction ys arbitrary: p w s rows s')
  case Nil
  then show ?case by simp
next
  case (Cons y ys)
  then show ?case
    by (auto simp: ebind_def split: prod.splits sum.splits list.splits)
qed

lemma single_particle_contract: "simulator_contract (single_particle_simulator K)"
  unfolding simulator_contract_def single_particle_simulator_def single_particle_simulate_def
  by (auto simp: ebind_def split: if_splits sum.splits prod.splits dest: forward_pass_length)

text \<open>
  Two samples: the three rows are the initial particle and the particle after each of
  the two steps; with finite samples every weight is 1.
\<close>

lemma single_particle_two_finite:
  assumes "0 \<le> p0" and "0 \<le> q" and "0 < r"
  shows "single_particle_simulate kalman_closed_form (Model_init p0 q [[r]])
           [Fin y1, Fin y2] 1 1 g
         = Inr ([[Fin (p0 * g 0)], [Fin (p0 * g 0 + q * g 1)],
                 [Fin (p0 * g 0 + q * g 1 + q * g 2)]], \<lambda>i. g (i + 3))"
  using assms
  by (simp add: single_particle_simulate_def Model_create_initial_estimate_def
        Model_sample_process_noise_def Model_update_def Model_measure_def
        np_random_normal_def np_iadd_def ebind_def bcast_to_def alloc_def reshape_col_def
        single_mean_def kalman_closed_form_def lognormpdf_closed_form_def fsub_def
        Model_init_def upt_rec Let_def add.assoc numeral_2_eq_2 numeral_3_eq_3)


lemma process_three_rows:
  assumes "simulate lib (Model_init p0 q [[r]]) [v, w] n m g = Inr (sim, g')"
    and "get_filtered_mean lib sim = [[a], [b], [c]]"
  shows "ParticleFilter_process lib (ParticleFilter_init n m p0 q r) (series_two v w) g
           = Inl ValueError"
  using assms
  by (simp add: ParticleFilter_process_def ParticleFilter_init_def series_two_def np_ravel_def
        column0_def pd_Series_def)

section \<open>The claims\<close>

text \<open>
  C1 (the code differs from the claim by a slip). The claim reads: for every non-empty
  series, \<^verbatim>\<open>__process__\<close> returns the smoothed estimates, the mean of the backward
  trajectories at each step. On two samples with one particle and one trajectory the
  simulator leaves the three filtered-mean rows \<open>[[0], [1], [3]]\<close>; \<^verbatim>\<open>__process__\<close>
  takes their column 0 and \<^verbatim>\<open>pd.Series\<close> raises \<^verbatim>\<open>ValueError\<close> on three values for
  two labels: no sequence is returned. The array prepared for the result comes from
  \<^verbatim>\<open>get_filtered_mean\<close>; the backward trajectories are not read.
\<close>

theorem process_raises_on_two_samples:
  "map_sum id (\<lambda>(sim, g'). get_filtered_mean (single_particle_simulator kalman_closed_form) sim)
     (simulate (single_particle_simulator kalman_closed_form) (Model_init 1 1 [[1]])
        [Fin 5, Fin 6] 1 1 rng_count) = Inr [[Fin 0], [Fin 1], [Fin 3]] \<and>
   column0 [[Fin 0], [Fin 1], [Fin 3]] = Inr [Fin 0, Fin 1, Fin 3] \<and>
   ParticleFilter_process (single_particle_simulator kalman_closed_form)
     (ParticleFilter_init 1 1 1 1 1) (series_two (Fin 5) (Fin 6)) rng_count = Inl ValueError"
proof -
  have run: "simulate (single_particle_simulator kalman_closed_form) (Model_init 1 1 [[1]])
               [Fin 5, Fin 6] 1 1 rng_count
             = Inr ([[Fin 0], [Fin 1], [Fin 3]], \<lambda>i. rng_count (i + 3))"
    using single_particle_two_finite [of 1 1 1 5 6 rng_count]
    by (simp add: single_particle_simulator_def rng_count_def)
  have rows: "get_filtered_mean (single_particle_simulator kalman_closed_form)
                [[Fin 0], [Fin 1], [Fin 3]] = [[Fin 0], [Fin 1], [Fin 3]]"
    by (simp add: single_particle_simulator_def)
  from run rows process_three_rows [OF run rows] show ?thesis
    by (simp add: column0_def)
qed




text \<open>
  C3 (the code differs from its documentation). The claim reads: the initial particles
  and the process noise are normal draws of variance \<open>P0\<close> and \<open>Q\<close>, that is, the scale
  passed to the normal sampler is the square root of the configured variance. The code
  passes the variance itself as the scale. With the variance \<open>1/4\<close> and the variate 1,
  both operations return \<open>1/4\<close>; the sampler called with the scale \<open>sqrt (1/4)\<close> returns
  \<open>1/2\<close>.
\<close>

theorem sampler_scale_is_the_variance:
  "map_sum id (\<lambda>(a, s'). arrays s' a)
     (Model_create_initial_estimate 1 (state_two (1/4) (1/4) 1)) = Inr [[Fin (1/4)]] \<and>
   map_sum id (\<lambda>(a, s'). arrays s' a)
     (Model_sample_process_noise 0 (state_two (1/4) (1/4) 1)) = Inr [[Fin (1/4)], [Fin (1/4)]] \<and>
   map_sum id fst
     (np_random_normal 0 (sqrt (Model_P0 (self_model (state_two (1/4) (1/4) 1)))) 1 rng_ones)
       = Inr [Fin (1/2)]"
  by (simp add: state_two_def Model_create_initial_estimate_def Model_sample_process_noise_def
        np_random_normal_def alloc_def reshape_col_def rng_ones_def Model_init_def
        real_sqrt_divide upt_rec)

text \<open>
  C4 (the code differs from the claim by a slip). The claim reads: for every input
  series the output series has the length and the timestamps of the input. The code
  builds the output with the index of the input, but from a simulator run with
  \<^verbatim>\<open>meas_first=False\<close>, which leaves one filtered-mean row more than there are samples:
  for every such simulator and every series whose values and index have the same
  length, \<^verbatim>\<open>__process__\<close> raises and returns no series.
\<close>

theorem process_returns_no_series:
  assumes "simulator_contract lib"
    and "length (series_values data) = length (labels (series_index data))"
  shows "\<exists>e. ParticleFilter_process lib self data g = Inl e"
proof (cases "ParticleFilter_process lib self data g")
  case (Inl e)
  then show ?thesis by blast
next
  case (Inr r)
  then have "ParticleFilter_process lib self data g = Inr (fst r, snd r)"
    by simp
  with process_no_series [OF assms] show ?thesis
    by blast
qed

theorem process_returns_no_series_witness:
  "simulator_contract (single_particle_simulator kalman_closed_form) \<and>
   length (series_values (series_two (Fin 5) (Fin 6))) =
     length (labels (series_index (series_two (Fin 5) (Fin 6)))) \<and>
   (\<exists>e. ParticleFilter_process (single_particle_simulator kalman_closed_form)
          (ParticleFilter_init 1 1 (1/50) (1/50) (3/50)) (series_two (Fin 5) (Fin 6)) rng_ones
        = Inl e)"
proof -
  have wf: "length (series_values (series_two (Fin 5) (Fin 6))) =
     length (labels (series_index (series_two (Fin 5) (Fin 6))))"
    by (simp add: series_two_def)
  from process_returns_no_series [OF single_particle_contract wf] single_particle_contract wf
  show ?thesis by blast
qed




text \<open>
  C7. With the kalman functions computing the logarithm of the zero-mean Gaussian
  density, and positive variances \<open>R\<close> and \<open>Q\<close>: \<^verbatim>\<open>measure\<close> returns, for each particle
  \<open>x\<close>, the logarithm of the normal density of \<open>y\<close> with mean \<open>x\<close> and variance \<open>R\<close>, and
  \<^verbatim>\<open>logp_xnext_full\<close> returns, for each pair, the logarithm of the normal density of
  \<open>x_next\<close> with mean \<open>x_prev\<close> and variance \<open>Q\<close>.
\<close>

theorem log_densities_are_normal:
  assumes "kalman_contract K" and "0 < r" and "0 < q"
    and "Model_R (self_model s) = [[r]]" and "Model_Q (self_model s) = q"
  shows "(arrays s particles = reshape_col (map Fin xs) \<longrightarrow>
            Model_measure K particles (Fin y) s =
              Inr (map (\<lambda>x. Fin (ln (normal_pdf x r y))) xs, s)) \<and>
         (arrays s part = reshape_col (map Fin xprev) \<and>
          np_take (arrays s ft) find_ix = Inr (reshape_col (map Fin xnext)) \<and>
          length xnext = length xprev \<longrightarrow>
            Model_logp_xnext_full K part (ft # rest) find_ix s =
              Inr (map (\<lambda>(xn, xp). Fin (ln (normal_pdf xp q xn))) (zip xnext xprev), s))"
  using measure_log_density [OF assms(1,2,4)] logp_log_density [OF assms(1,3,5)]
  by blast

theorem log_densities_are_normal_witness:
  "Model_measure kalman_closed_form 0 (Fin 3) (state_two 1 2 5) =
     Inr ([Fin (ln (normal_pdf 1 5 3)), Fin (ln (normal_pdf 2 5 3))], state_two 1 2 5) \<and>
   Model_logp_xnext_full kalman_closed_form 0 [1] [1, 0] (state_two 1 2 5) =
     Inr ([Fin (ln (normal_pdf 1 2 20)), Fin (ln (normal_pdf 2 2 10))], state_two 1 2 5)"
proof -
  have t: "np_take (arrays (state_two 1 2 5) 1) [1, 0] = Inr (reshape_col (map Fin [20, 10]))"
    by (simp add: np_take_def state_two_def reshape_col_def)
  have a: "arrays (state_two 1 2 5) 0 = reshape_col (map Fin [1, 2])"
    by (simp add: state_two_def reshape_col_def)
  have m: "Model_R (self_model (state_two 1 2 5)) = [[5]]"
    "Model_Q (self_model (state_two 1 2 5)) = 2"
    by (simp_all add: state_two_def Model_init_def)
  from log_densities_are_normal
    [OF kalman_closed_form_contract _ _ m,
     of 0 "[1, 2]" 3 0 "[1, 2]" 1 "[1, 0]" "[20, 10]" "[]"]
    a t
  show ?thesis by simp
qed

text \<open>
  C8 (amended). The claim reads: every operation of the model is pure, none modifies the
  stored parameters and none mutates its arguments, \<^verbatim>\<open>update\<close> included. The code of
  \<^verbatim>\<open>update\<close> is \<^verbatim>\<open>particles += noise\<close>, an in-place addition. What holds: no operation
  changes the stored parameters; \<^verbatim>\<open>create_initial_estimate\<close> and
  \<^verbatim>\<open>sample_process_noise\<close> return a fresh array, at an address that was not allocated
  before the call, and leave every allocated array as it was;
  \<^verbatim>\<open>measure\<close> and \<^verbatim>\<open>logp_xnext_full\<close> leave the whole state as it was;
  \<^verbatim>\<open>update\<close> writes the sum into the caller's particle array and leaves the generator
  and every other array as they were.
\<close>

theorem model_operations_frame:
  "(Model_create_initial_estimate N s = Inr (a1, s1) \<longrightarrow>
      self_model s1 = self_model s \<and> a1 = next_free s \<and> next_free s1 = Suc (next_free s) \<and>
      (\<forall>c < next_free s. arrays s1 c = arrays s c)) \<and>
   (Model_sample_process_noise particles s = Inr (a2, s2) \<longrightarrow>
      self_model s2 = self_model s \<and> a2 = next_free s \<and> next_free s2 = Suc (next_free s) \<and>
      (\<forall>c < next_free s. arrays s2 c = arrays s c)) \<and>
   (Model_measure K particles y s = Inr (lp3, s3) \<longrightarrow> s3 = s) \<and>
   (Model_logp_xnext_full K part future_trajs find_ix s = Inr (lp4, s4) \<longrightarrow> s4 = s) \<and>
   (Model_update particles noise s = Inr (u, s5) \<longrightarrow>
      self_model s5 = self_model s \<and> np_random s5 = np_random s \<and>
      next_free s5 = next_free s \<and>
      np_iadd (arrays s particles) (arrays s noise) = Inr (arrays s5 particles) \<and>
      (\<forall>c. c \<noteq> particles \<longrightarrow> arrays s5 c = arrays s c))"
  using create_initial_estimate_frame [of N s a1 s1]
    sample_process_noise_frame [of particles s a2 s2]
    measure_frame [of K particles y s lp3 s3]
    logp_xnext_full_frame [of K part future_trajs find_ix s lp4 s4]
    update_frame [of particles noise s u s5]
  by auto

theorem model_operations_frame_witness:
  "Model_update 0 1 (state_two 1 2 5) =
     Inr ((), state_two 1 2 5
                \<lparr>arrays := (arrays (state_two 1 2 5))(0 := [[Fin 11], [Fin 22]])\<rparr>) \<and>
   self_model (state_two 1 2 5
                \<lparr>arrays := (arrays (state_two 1 2 5))(0 := [[Fin 11], [Fin 22]])\<rparr>)
     = Model_init 1 2 [[5]] \<and>
   arrays (state_two 1 2 5
                \<lparr>arrays := (arrays (state_two 1 2 5))(0 := [[Fin 11], [Fin 22]])\<rparr>) 1
     = [[Fin 10], [Fin 20]] \<and>
   next_free (state_two 1 2 5) = 2 \<and>
   map_sum id fst (Model_create_initial_estimate 2 (state_two 1 2 5)) = Inr 2 \<and>
   map_sum id fst (Model_sample_process_noise 0 (state_two 1 2 5)) = Inr 2"
proof -
  let ?s = "state_two 1 2 5"
  let ?s5 = "?s\<lparr>arrays := (arrays ?s)(0 := [[Fin 11], [Fin 22]])\<rparr>"
  let ?s1 = "?s\<lparr>np_random := \<lambda>i. rng_ones (i + 2),
                 arrays := (arrays ?s)(2 := [[Fin 1], [Fin 1]]), next_free := 3\<rparr>"
  let ?s2 = "?s\<lparr>np_random := \<lambda>i. rng_ones (i + 2),
                 arrays := (arrays ?s)(2 := [[Fin 2], [Fin 2]]), next_free := 3\<rparr>"
  have u: "Model_update 0 1 ?s = Inr ((), ?s5)"
    by (simp add: state_two_def Model_update_def np_iadd_def ebind_def bcast_to_def)
  have c: "Model_create_initial_estimate 2 ?s = Inr (2, ?s1)"
    by (simp add: state_two_def Model_create_initial_estimate_def np_random_normal_def
          alloc_def reshape_col_def rng_ones_def Model_init_def upt_rec)
  have n: "Model_sample_process_noise 0 ?s = Inr (2, ?s2)"
    by (simp add: state_two_def Model_sample_process_noise_def np_random_normal_def
          alloc_def reshape_col_def rng_ones_def Model_init_def upt_rec)
  have m: "Model_measure kalman_closed_form 0 (Fin 3) ?s =
             Inr ([Fin (ln (normal_pdf 1 5 3)), Fin (ln (normal_pdf 2 5 3))], ?s)"
    using measure_log_density [OF kalman_closed_form_contract, of 5 ?s 0 "[1, 2]" 3]
    by (simp add: state_two_def Model_init_def reshape_col_def)
  have l: "Model_logp_xnext_full kalman_closed_form 0 [1] [1, 0] ?s =
             Inr ([Fin (ln (normal_pdf 1 2 20)), Fin (ln (normal_pdf 2 2 10))], ?s)"
    using logp_log_density [OF kalman_closed_form_contract, of 2 ?s 0 "[1, 2]" 1 "[1, 0]"
            "[20, 10]" "[]"]
    by (simp add: state_two_def Model_init_def reshape_col_def np_take_def)
  from model_operations_frame
    [of 2 ?s 2 ?s1 0 2 ?s2 kalman_closed_form "Fin 3"
        "[Fin (ln (normal_pdf 1 5 3)), Fin (ln (normal_pdf 2 5 3))]" ?s
        0 "[1]" "[1, 0]" "[Fin (ln (normal_pdf 1 2 20)), Fin (ln (normal_pdf 2 2 10))]" ?s
        1 "()" ?s5]
    u c n m l
  show ?thesis by (simp add: state_two_def)
qed

text \<open>
  The particle array \<open>[[1], [2]]\<close> and the noise \<open>[[10], [20]]\<close>: after \<^verbatim>\<open>update\<close> the
  caller's particle array holds \<open>[[11], [22]]\<close>.
\<close>

theorem update_mutates_particles:
  "arrays (state_two 1 1 1) 0 = [[Fin 1], [Fin 2]] \<and>
   map_sum id (\<lambda>(u, s'). arrays s' 0) (Model_update 0 1 (state_two 1 1 1))
     = Inr [[Fin 11], [Fin 22]] \<and>
   [[Fin 11], [Fin 22]] \<noteq> [[Fin 1], [Fin (2 :: real)]]"
  by (simp add: state_two_def Model_update_def np_iadd_def ebind_def bcast_to_def)

text \<open>
  C9. For finite particles and finite noise of the same shape, \<^verbatim>\<open>update\<close> leaves in the
  particle array, entry by entry, exactly \<open>x + noise\<close>; nothing else enters the sum.
\<close>

theorem update_adds_noise:
  assumes "arrays s particles = map (map Fin) X"
    and "arrays s noise = map (map Fin) V"
    and "list_all2 (\<lambda>rx rv. length rx = length rv) X V"
  shows "Model_update particles noise s =
           Inr ((), s\<lparr>arrays := (arrays s)(particles :=
                  map (\<lambda>(rx, rv). map (\<lambda>(x, v). Fin (x + v)) (zip rx rv)) (zip X V))\<rparr>)"
proof -
  have sh: "list_all2 (\<lambda>ra rb. length ra = length rb) (map (map Fin) X) (map (map Fin) V)"
    using assms(3) by (simp add: list_all2_map1 list_all2_map2)
  have row: "\<And>rx rv. map (\<lambda>(x, y). fadd x y) (zip (map Fin rx) (map Fin rv))
               = map (\<lambda>(x, v). Fin (x + v)) (zip rx rv)"
    by (auto simp: zip_map_map)
  have "np_iadd (map (map Fin) X) (map (map Fin) V)
          = Inr (map (\<lambda>(rx, rv). map (\<lambda>(x, v). Fin (x + v)) (zip rx rv)) (zip X V))"
    by (simp add: np_iadd_same_shape [OF sh] zip_map_map row case_prod_unfold)
  then show ?thesis
    using assms(1,2) by (simp add: Model_update_def)
qed

theorem update_adds_noise_witness:
  "map_sum id (\<lambda>(u, s'). arrays s' 0) (Model_update 0 1 (state_two 3 4 5))
     = Inr [[Fin (1 + 10)], [Fin (2 + 20)]]"
  using update_adds_noise [of "state_two 3 4 5" 0 "[[1], [2]]" 1 "[[10], [20]]"]
  by (simp add: state_two_def)


end
